theory Spec2Isabelle
  imports Main "HOL-Library.Word" "HOL-Library.Multiset"
begin

section \<open>Time\<close>

text \<open>
  A \<open>time.Time\<close> is the number of nanoseconds since Go's zero time, a
  \<open>time.Duration\<close> a signed 64-bit count of nanoseconds. The operations of the
  circuit breaker, the rate limiter and the load balancer that call \<open>time.Now()\<close> take
  the reading as an argument; the handlers read it from the clock of the server state.
  Calls are modelled one after the other, as the locks of the program order them.
\<close>

type_synonym Time = int
type_synonym Duration = int

definition Second :: Duration where
  "Second = 1000000000"

definition zeroTime :: Time where
  "zeroTime = 0"

definition minDuration :: Duration where
  "minDuration = - (2 ^ 63)"

definition maxDuration :: Duration where
  "maxDuration = 2 ^ 63 - 1"

text \<open>\<open>time.Since(t)\<close> is \<open>time.Now().Sub(t)\<close>; \<open>Sub\<close> saturates at the ends of the
  range of a Duration.\<close>

definition Since :: "Time \<Rightarrow> Time \<Rightarrow> Duration" where
  "Since now t = max minDuration (min maxDuration (now - t))"

section \<open>Circuit breaker (package middleware)\<close>

datatype CircuitState = StateClosed | StateOpen | StateHalfOpen

record backendState =
  state :: CircuitState
  failureCount :: "64 word"
  lastFailureTime :: Time

record CircuitBreaker =
  cb_backends :: "string \<rightharpoonup> backendState"
  failureThreshold :: "64 word"
  timeout :: Duration

definition NewCircuitBreaker :: CircuitBreaker where
  "NewCircuitBreaker =
     \<lparr>cb_backends = Map.empty, failureThreshold = 5, timeout = 10 * Second\<rparr>"

text \<open>The record \<open>&backendState{state: StateClosed}\<close>: the other fields have Go's zero
  values.\<close>

definition newBackendState :: backendState where
  "newBackendState = \<lparr>state = StateClosed, failureCount = 0, lastFailureTime = zeroTime\<rparr>"

text \<open>\<open>failureCount\<close> and \<open>failureThreshold\<close> are Go \<open>int\<close>s: the increment wraps at 64
  bits and the comparison is signed.\<close>

definition OnBackendFailure :: "Time \<Rightarrow> string \<Rightarrow> CircuitBreaker \<Rightarrow> CircuitBreaker" where
  "OnBackendFailure now backend cb =
     (let st = (case cb_backends cb backend of
                  None \<Rightarrow> newBackendState
                | Some st \<Rightarrow> st);
          st1 = st\<lparr>failureCount := failureCount st + 1, lastFailureTime := now\<rparr>;
          st2 = (if sint (failureThreshold cb) \<le> sint (failureCount st1)
                 then st1\<lparr>state := StateOpen\<rparr> else st1)
      in cb\<lparr>cb_backends := (cb_backends cb)(backend \<mapsto> st2)\<rparr>)"

definition OnBackendSuccess :: "string \<Rightarrow> CircuitBreaker \<Rightarrow> CircuitBreaker" where
  "OnBackendSuccess backend cb =
     (case cb_backends cb backend of
        None \<Rightarrow> cb
      | Some st \<Rightarrow>
          (let st1 = st\<lparr>failureCount := 0\<rparr>;
               st2 = (if state st1 = StateHalfOpen then st1\<lparr>state := StateClosed\<rparr> else st1)
           in cb\<lparr>cb_backends := (cb_backends cb)(backend \<mapsto> st2)\<rparr>))"

text \<open>\<open>IsBackendOpen\<close> returns whether requests to the backend are blocked, and the
  tracker as the call leaves it: the check creates a missing record and moves an Open
  backend whose timeout has passed to HalfOpen.\<close>

definition IsBackendOpen :: "Time \<Rightarrow> string \<Rightarrow> CircuitBreaker \<Rightarrow> bool \<times> CircuitBreaker" where
  "IsBackendOpen now backend cb =
     (case cb_backends cb backend of
        None \<Rightarrow> (False, cb\<lparr>cb_backends := (cb_backends cb)(backend \<mapsto> newBackendState)\<rparr>)
      | Some st \<Rightarrow>
          if state st = StateOpen then
            if timeout cb < Since now (lastFailureTime st)
            then (False, cb\<lparr>cb_backends := (cb_backends cb)(backend \<mapsto> st\<lparr>state := StateHalfOpen\<rparr>)\<rparr>)
            else (True, cb)
          else (False, cb))"

text \<open>A run of availability checks on one backend, at the given clock readings, with
  nothing else touching the tracker in between. The results are those of
  \<open>IsBackendOpen\<close>, in order.\<close>

fun IsBackendOpen_run :: "Time list \<Rightarrow> string \<Rightarrow> CircuitBreaker \<Rightarrow> bool list \<times> CircuitBreaker" where
  "IsBackendOpen_run [] backend cb = ([], cb)"
| "IsBackendOpen_run (now # ts) backend cb =
     (let (r, cb1) = IsBackendOpen now backend cb;
          (rs, cb2) = IsBackendOpen_run ts backend cb1
      in (r # rs, cb2))"

section \<open>Rate limiter (package middleware)\<close>

record RateLimiter =
  timestamps :: "Time list"
  rps :: int

text \<open>\<open>make([]time.Time, 0, rps)\<close> panics on a negative capacity: no limiter is built
  then.\<close>

definition NewRateLimiter :: "int \<Rightarrow> RateLimiter option" where
  "NewRateLimiter n = (if n < 0 then None else Some \<lparr>timestamps = [], rps = n\<rparr>)"

text \<open>The loop of \<open>Allow\<close> that compacts the slice in place: \<open>i\<close> is the position the
  \<open>range\<close> has reached, \<open>valid\<close> the number of entries kept so far. It returns the
  array and \<open>valid\<close>; \<open>ts.After(window)\<close> is \<open>window < ts\<close>.\<close>

function prune :: "Time \<Rightarrow> Time list \<Rightarrow> nat \<Rightarrow> nat \<Rightarrow> Time list \<times> nat" where
  "prune window arr i valid =
     (if i < length arr then
        (let ts = arr ! i
         in if window < ts then prune window (arr[valid := ts]) (Suc i) (Suc valid)
            else prune window arr (Suc i) valid)
      else (arr, valid))"
  by pat_completeness auto
termination
  by (relation "measure (\<lambda>(window, arr, i, valid). length arr - i)") auto

declare prune.simps [simp del]

definition Allow :: "Time \<Rightarrow> RateLimiter \<Rightarrow> bool \<times> RateLimiter" where
  "Allow now rl =
     (let window = now - Second;
          (arr, valid) = prune window (timestamps rl) 0 0;
          rl1 = rl\<lparr>timestamps := take valid arr\<rparr>
      in if int (length (timestamps rl1)) < rps rl1
         then (True, rl1\<lparr>timestamps := timestamps rl1 @ [now]\<rparr>)
         else (False, rl1))"

text \<open>A sequence of \<open>Allow\<close> calls at the given clock readings. The result lists the
  readings of the calls that were admitted, in order, and the limiter at the end.\<close>

fun Allow_run :: "Time list \<Rightarrow> RateLimiter \<Rightarrow> Time list \<times> RateLimiter" where
  "Allow_run [] rl = ([], rl)"
| "Allow_run (now # ts) rl =
     (let (ok, rl1) = Allow now rl;
          (adm, rl2) = Allow_run ts rl1
      in ((if ok then [now] else []) @ adm, rl2))"

text \<open>The admitted calls whose reading lies in the trailing window \<open>(T - 1s, T]\<close>.\<close>

definition in_window :: "Time \<Rightarrow> Time list \<Rightarrow> Time list" where
  "in_window T adm = filter (\<lambda>t. T - Second < t \<and> t \<le> T) adm"

section \<open>Load balancer (package loadbalancer)\<close>

record LoadBalancer =
  lb_backends :: "string list"
  current :: "64 word"

definition New :: "string list \<Rightarrow> LoadBalancer" where
  "New bs = \<lparr>lb_backends = bs, current = 0\<rparr>"

text \<open>The scan of \<open>Next\<close> from iteration \<open>i\<close> on. \<open>clk i\<close> is the clock reading that the
  availability check of iteration \<open>i\<close> gets. The index arithmetic is that of \<open>uint64\<close>.\<close>

function Next_loop ::
  "(nat \<Rightarrow> Time) \<Rightarrow> string list \<Rightarrow> 64 word \<Rightarrow> nat \<Rightarrow> CircuitBreaker \<Rightarrow> string \<times> CircuitBreaker"
where
  "Next_loop clk bs start i cb =
     (if i < length bs then
        (let idx = unat ((start + of_nat i) mod of_nat (length bs));
             backend = bs ! idx;
             (blocked, cb1) = IsBackendOpen (clk i) backend cb
         in if \<not> blocked then (backend, cb1)
            else Next_loop clk bs start (Suc i) cb1)
      else ([], cb))"
  by pat_completeness auto
termination
  by (relation "measure (\<lambda>(clk, bs, start, i, cb). length bs - i)") auto

declare Next_loop.simps [simp del]

definition Next ::
  "(nat \<Rightarrow> Time) \<Rightarrow> LoadBalancer \<Rightarrow> CircuitBreaker \<Rightarrow> string \<times> LoadBalancer \<times> CircuitBreaker"
where
  "Next clk b cb =
     (if length (lb_backends b) = 0 then ([], b, cb)
      else
        (let start = current b + 1;
             b1 = b\<lparr>current := start\<rparr>;
             (backend, cb1) = Next_loop clk (lb_backends b1) start 0 cb
         in (backend, b1, cb1)))"

text \<open>Consecutive \<open>Next\<close> calls, one per element of \<open>clks\<close> (the clock readings of that
  call), with nothing else touching the pool or the tracker in between.\<close>

fun Next_run ::
  "(nat \<Rightarrow> Time) list \<Rightarrow> LoadBalancer \<Rightarrow> CircuitBreaker \<Rightarrow> string list \<times> LoadBalancer \<times> CircuitBreaker"
where
  "Next_run [] b cb = ([], b, cb)"
| "Next_run (clk # clks) b cb =
     (let (r, b1, cb1) = Next clk b cb;
          (rs, b2, cb2) = Next_run clks b1 cb1
      in (r # rs, b2, cb2))"

section \<open>Metrics (package metrics)\<close>

record Metrics =
  RequestCount :: "64 word"
  ResponseCount :: "64 word"
  ErrorCount :: "64 word"

definition New_Metrics :: Metrics where
  "New_Metrics = \<lparr>RequestCount = 0, ResponseCount = 0, ErrorCount = 0\<rparr>"

definition IncRequest :: "Metrics \<Rightarrow> Metrics" where
  "IncRequest m = m\<lparr>RequestCount := RequestCount m + 1\<rparr>"

definition IncResponse :: "Metrics \<Rightarrow> Metrics" where
  "IncResponse m = m\<lparr>ResponseCount := ResponseCount m + 1\<rparr>"

definition IncError :: "Metrics \<Rightarrow> Metrics" where
  "IncError m = m\<lparr>ErrorCount := ErrorCount m + 1\<rparr>"

section \<open>Requests, responses and response writers\<close>

text \<open>The fields of an inbound \<open>*http.Request\<close> that the program reads, and its
  headers. A body stream is the bytes it delivers.\<close>

record Request =
  Method :: string
  URL_Path :: string
  URL_RawQuery :: string
  URL_Host :: string
  Header :: "(string \<times> string) list"
  Body :: string

text \<open>The request that \<open>http.NewRequest\<close> builds for the backend: the URL is the string
  it was given.\<close>

record ClientRequest =
  out_Method :: string
  out_URL :: string
  out_Header :: "(string \<times> string) list"
  out_Body :: string

text \<open>The \<open>*http.Response\<close> of a backend.\<close>

record Response =
  resp_StatusCode :: int
  resp_Header :: "(string \<times> string) list"
  resp_Body :: string

text \<open>
  What the caller's connection has received from the handler: the header map the handler
  can still change, the status line and headers once they are committed, and the body
  bytes written. This is the documented behaviour of the \<open>http.ResponseWriter\<close> of
  \<open>net/http\<close>: the first \<open>WriteHeader\<close> commits the status with the headers set so far,
  a later one is ignored, and a \<open>Write\<close> before any \<open>WriteHeader\<close> commits status 200
  first. When the first body bytes go out and the committed headers have no
  \<open>Content-Type\<close>, the server adds the one that \<open>http.DetectContentType\<close> finds in these
  bytes. \<open>detectContentType\<close> is that library function, which the model takes as given.
  The headers that the server adds on its own account (\<open>Date\<close>, \<open>Content-Length\<close>,
  \<open>Transfer-Encoding\<close>) are not part of the record.
\<close>

record conn =
  handlerHeader :: "(string \<times> string) list"
  wroteHeader :: "(int \<times> (string \<times> string) list) option"
  written :: string
  detectContentType :: "string \<Rightarrow> string"

definition bodyAllowedForStatus :: "int \<Rightarrow> bool" where
  "bodyAllowedForStatus status =
     (\<not> (100 \<le> status \<and> status \<le> 199) \<and> status \<noteq> 204 \<and> status \<noteq> 304)"

text \<open>The sniffing step of the server, on the committed status and headers and the
  first body bytes \<open>p\<close>: no type is added when the headers have one, when a
  \<open>Content-Encoding\<close> or a \<open>Transfer-Encoding\<close> is set, when the status allows no body or
  when there are no bytes.\<close>

definition sniffContentType ::
  "(string \<Rightarrow> string) \<Rightarrow> string \<Rightarrow> int \<times> (string \<times> string) list \<Rightarrow> int \<times> (string \<times> string) list"
where
  "sniffContentType detect p sh =
     (let (code, header) = sh;
          haveType = (map_of header ''Content-Type'' \<noteq> None);
          hasCE = (case map_of header ''Content-Encoding'' of None \<Rightarrow> False | Some ce \<Rightarrow> ce \<noteq> []);
          hasTE = (case map_of header ''Transfer-Encoding'' of None \<Rightarrow> False | Some te \<Rightarrow> te \<noteq> [])
      in if bodyAllowedForStatus code \<and> \<not> hasCE \<and> \<not> haveType \<and> \<not> hasTE \<and> p \<noteq> []
         then (code, header @ [(''Content-Type'', detect p)])
         else sh)"

text \<open>\<open>Write\<close> on the connection: it commits status 200 if nothing is committed yet,
  lets the server sniff the type from the first body bytes, and adds the bytes to the
  body.\<close>

definition conn_Write :: "string \<Rightarrow> conn \<Rightarrow> conn" where
  "conn_Write bs c =
     (let c1 = (if wroteHeader c = None then c\<lparr>wroteHeader := Some (200, handlerHeader c)\<rparr> else c);
          c2 = (if written c1 = []
                then c1\<lparr>wroteHeader :=
                          map_option (sniffContentType (detectContentType c1) bs) (wroteHeader c1)\<rparr>
                else c1)
      in c2\<lparr>written := written c2 @ bs\<rparr>)"

text \<open>A writer is the connection or the program's \<open>middleware.ResponseWriter\<close> around
  another writer, with its \<open>StatusCode\<close> field.\<close>

datatype writer = Conn conn | ResponseWriter writer int

fun StatusCode :: "writer \<Rightarrow> int" where
  "StatusCode (ResponseWriter w code) = code"
| "StatusCode (Conn c) = 0"

text \<open>The writer a \<open>ResponseWriter\<close> wraps, as the calls made through it have left it.\<close>

fun embedded :: "writer \<Rightarrow> writer" where
  "embedded (ResponseWriter w code) = w"
| "embedded (Conn c) = Conn c"

fun conn_of :: "writer \<Rightarrow> conn" where
  "conn_of (Conn c) = c"
| "conn_of (ResponseWriter w code) = conn_of w"

text \<open>\<open>WriteHeader\<close> of \<open>middleware.ResponseWriter\<close> records the code and calls the
  wrapped writer; \<open>Write\<close> and \<open>Header\<close> are promoted from the embedded interface and
  record nothing.\<close>

fun WriteHeader :: "int \<Rightarrow> writer \<Rightarrow> writer" where
  "WriteHeader code (Conn c) =
     Conn (if wroteHeader c = None then c\<lparr>wroteHeader := Some (code, handlerHeader c)\<rparr> else c)"
| "WriteHeader code (ResponseWriter w sc) = ResponseWriter (WriteHeader code w) code"

fun Write :: "string \<Rightarrow> writer \<Rightarrow> writer" where
  "Write bs (Conn c) = Conn (conn_Write bs c)"
| "Write bs (ResponseWriter w sc) = ResponseWriter (Write bs w) sc"

fun Header_Set :: "string \<Rightarrow> string \<Rightarrow> writer \<Rightarrow> writer" where
  "Header_Set k v (Conn c) =
     Conn (c\<lparr>handlerHeader := filter (\<lambda>kv. fst kv \<noteq> k) (handlerHeader c) @ [(k, v)]\<rparr>)"
| "Header_Set k v (ResponseWriter w sc) = ResponseWriter (Header_Set k v w) sc"

fun Header_Del :: "string \<Rightarrow> writer \<Rightarrow> writer" where
  "Header_Del k (Conn c) = Conn (c\<lparr>handlerHeader := filter (\<lambda>kv. fst kv \<noteq> k) (handlerHeader c)\<rparr>)"
| "Header_Del k (ResponseWriter w sc) = ResponseWriter (Header_Del k w) sc"

text \<open>\<open>http.Error\<close> of \<open>net/http\<close>: it sets the plain-text headers, writes the status and
  prints the message and a newline.\<close>

definition http_Error :: "string \<Rightarrow> int \<Rightarrow> writer \<Rightarrow> writer" where
  "http_Error msg code w =
     (let w1 = Header_Del ''Content-Length'' w;
          w2 = Header_Set ''Content-Type'' ''text/plain; charset=utf-8'' w1;
          w3 = Header_Set ''X-Content-Type-Options'' ''nosniff'' w2;
          w4 = WriteHeader code w3
      in Write (msg @ [CHR 0x0A]) w4)"

text \<open>\<open>io.Copy(dst, src)\<close>: it writes what it reads and makes no \<open>Write\<close> call for no
  bytes. \<open>failure = Some n\<close> is a copy that breaks after \<open>n\<close> bytes, reported by the
  flag.\<close>

definition io_Copy :: "nat option \<Rightarrow> string \<Rightarrow> writer \<Rightarrow> writer \<times> bool" where
  "io_Copy failure src dst =
     (let bs = (case failure of None \<Rightarrow> src | Some n \<Rightarrow> take n src)
      in (if bs = [] then dst else Write bs dst, failure \<noteq> None))"

section \<open>The server state and its environment\<close>

datatype LogEntry =
  ErrorLog string int
| AccessLog string string int Duration

text \<open>
  The state that the handlers of one server share (the fields of \<open>proxy.Server\<close>),
  the lines they have logged, the requests they have sent to backends, and the clock:
  \<open>clock s (ticks s)\<close> is the next reading of \<open>time.Now()\<close>. A handler takes one
  reading for every call it makes that may read the time, whether or not the call looks
  at it.
\<close>

record Server =
  metrics :: Metrics
  limiter :: RateLimiter
  lb :: LoadBalancer
  circuitBreak :: CircuitBreaker
  logged :: "LogEntry list"
  sent :: "ClientRequest list"
  clock :: "nat \<Rightarrow> Time"
  ticks :: nat

definition time_Now :: "Server \<Rightarrow> Time \<times> Server" where
  "time_Now s = (clock s (ticks s), s\<lparr>ticks := Suc (ticks s)\<rparr>)"

text \<open>\<open>NewServer\<close>, from the rate limit and the backends of the configuration.\<close>

definition NewServer :: "int \<Rightarrow> string list \<Rightarrow> (nat \<Rightarrow> Time) \<Rightarrow> Server option" where
  "NewServer rateLimit bs clk =
     (case NewRateLimiter rateLimit of
        None \<Rightarrow> None
      | Some rl \<Rightarrow>
          Some \<lparr>metrics = New_Metrics, limiter = rl, lb = New bs,
                circuitBreak = NewCircuitBreaker, logged = [], sent = [],
                clock = clk, ticks = 0\<rparr>)"

text \<open>
  What the network does to one request: whether \<open>http.NewRequest\<close> accepts a method and
  a URL, the backend's answer to \<open>client.Do\<close> (\<open>None\<close> for a connection error or a
  timeout), and whether the copy of the response body breaks.
\<close>

record Env =
  validRequest :: "string \<Rightarrow> string \<Rightarrow> bool"
  roundTrip :: "ClientRequest \<Rightarrow> Response option"
  copyFailure :: "nat option"

text \<open>\<open>http.NewRequest\<close> reads an empty method as GET and gives the request an empty
  header map.\<close>

definition NewRequest :: "Env \<Rightarrow> string \<Rightarrow> string \<Rightarrow> string \<Rightarrow> ClientRequest option" where
  "NewRequest env method url body =
     (let method1 = (if method = [] then ''GET'' else method)
      in if validRequest env method1 url
         then Some \<lparr>out_Method = method1, out_URL = url, out_Header = [], out_Body = body\<rparr>
         else None)"

section \<open>Error responses (package errors)\<close>

record HTTPError =
  Status :: int
  Message :: string

definition HandleError :: "writer \<Rightarrow> HTTPError \<Rightarrow> Server \<Rightarrow> writer \<times> Server" where
  "HandleError w err s =
     (let s1 = s\<lparr>logged := logged s @ [ErrorLog (Message err) (Status err)]\<rparr>
      in (http_Error (Message err) (Status err) w, s1))"

section \<open>Handlers and middleware\<close>

text \<open>An \<open>http.Handler\<close> takes the request and the writer and returns the writer and
  the server state as it leaves them.\<close>

type_synonym Handler = "Request \<Rightarrow> writer \<Rightarrow> Server \<Rightarrow> writer \<times> Server"
type_synonym Middleware = "Handler \<Rightarrow> Handler"

definition RateLimiter_Middleware :: Middleware where
  "RateLimiter_Middleware next r w s =
     (let (now, s1) = time_Now s;
          (ok, rl1) = Allow now (limiter s1);
          s2 = s1\<lparr>limiter := rl1\<rparr>
      in if \<not> ok
         then HandleError w \<lparr>Status = 429, Message = ''Rate limit exceeded''\<rparr> s2
         else next r w s2)"

definition CircuitBreaker_Middleware :: Middleware where
  "CircuitBreaker_Middleware next r w s =
     (let backend = URL_Host r;
          (now, s1) = time_Now s;
          (blocked, cb1) = IsBackendOpen now backend (circuitBreak s1);
          s2 = s1\<lparr>circuitBreak := cb1\<rparr>
      in if blocked
         then HandleError w \<lparr>Status = 503, Message = ''Circuit breaker is open''\<rparr> s2
         else
           (let (wrapped, s3) = next r (ResponseWriter w 0) s2
            in if 500 \<le> StatusCode wrapped
               then (let (now1, s4) = time_Now s3
                     in (embedded wrapped,
                         s4\<lparr>circuitBreak := OnBackendFailure now1 backend (circuitBreak s4)\<rparr>))
               else (embedded wrapped,
                     s3\<lparr>circuitBreak := OnBackendSuccess backend (circuitBreak s3)\<rparr>)))"

definition Logging :: Middleware where
  "Logging next r w s =
     (let (start, s1) = time_Now s;
          (wrapped, s2) = next r (ResponseWriter w 0) s1;
          (finish, s3) = time_Now s2
      in (embedded wrapped,
          s3\<lparr>logged := logged s3 @
                [AccessLog (Method r) (URL_Path r) (StatusCode wrapped) (Since finish start)]\<rparr>))"

text \<open>\<open>Chain\<close>: the loop runs \<open>i\<close> from \<open>len(middleware) - 1\<close> down to 0; \<open>Chain_loop\<close>
  is the loop with \<open>n = i + 1\<close>.\<close>

fun Chain_loop :: "Handler \<Rightarrow> Middleware list \<Rightarrow> nat \<Rightarrow> Handler" where
  "Chain_loop h middleware 0 = h"
| "Chain_loop h middleware (Suc i) = Chain_loop ((middleware ! i) h) middleware i"

definition Chain :: "Handler \<Rightarrow> Middleware list \<Rightarrow> Handler" where
  "Chain h middleware = Chain_loop h middleware (length middleware)"

section \<open>The proxy handler (package proxy)\<close>

text \<open>
  \<open>ProxyHandler.ServeHTTP\<close>. The availability checks of \<open>lb.Next()\<close> get the next
  readings of the clock, one per pool entry. Each request handed to \<open>client.Do\<close> is
  appended to \<open>sent\<close>. \<open>targetURL\<close> is the URL string the handler builds for the
  chosen backend.
\<close>

definition targetURL :: "string \<Rightarrow> Request \<Rightarrow> string" where
  "targetURL backend r =
     (let url = backend @ URL_Path r
      in if URL_RawQuery r \<noteq> [] then url @ ''?'' @ URL_RawQuery r else url)"

definition ServeHTTP :: "Env \<Rightarrow> Handler" where
  "ServeHTTP env r w s =
     (let s1 = s\<lparr>metrics := IncRequest (metrics s)\<rparr>;
          wrapped = ResponseWriter w 0;
          (backend, lb1, cb1) = Next (\<lambda>i. clock s1 (ticks s1 + i)) (lb s1) (circuitBreak s1);
          s2 = s1\<lparr>lb := lb1, circuitBreak := cb1,
                  ticks := ticks s1 + length (lb_backends (lb s1))\<rparr>
      in if backend = [] then
           (let s3 = s2\<lparr>metrics := IncError (metrics s2)\<rparr>;
                (wrapped1, s4) =
                  HandleError wrapped \<lparr>Status = 503, Message = ''No backends available''\<rparr> s3
            in (embedded wrapped1, s4))
         else
           (case NewRequest env (Method r) (targetURL backend r) (Body r) of
                 None \<Rightarrow>
                   (let s3 = s2\<lparr>metrics := IncError (metrics s2)\<rparr>;
                        (wrapped1, s4) =
                          HandleError wrapped
                            \<lparr>Status = 500, Message = ''Error creating proxy request''\<rparr> s3
                    in (embedded wrapped1, s4))
               | Some proxyReq \<Rightarrow>
                   (let s3 = s2\<lparr>sent := sent s2 @ [proxyReq]\<rparr>
                    in case roundTrip env proxyReq of
                         None \<Rightarrow>
                           (let s4 = s3\<lparr>metrics := IncError (metrics s3)\<rparr>;
                                (now, s5) = time_Now s4;
                                s6 = s5\<lparr>circuitBreak :=
                                          OnBackendFailure now backend (circuitBreak s5)\<rparr>;
                                (wrapped1, s7) =
                                  HandleError wrapped
                                    \<lparr>Status = 502, Message = ''Error forwarding request''\<rparr> s6
                            in (embedded wrapped1, s7))
                       | Some resp \<Rightarrow>
                           (let s4 = s3\<lparr>circuitBreak :=
                                          OnBackendSuccess backend (circuitBreak s3)\<rparr>;
                                (wrapped1, failed) =
                                  io_Copy (copyFailure env) (resp_Body resp) wrapped
                            in if failed then
                                 (let s5 = s4\<lparr>metrics := IncError (metrics s4)\<rparr>;
                                      (wrapped2, s6) =
                                        HandleError wrapped1
                                          \<lparr>Status = 500, Message = ''Error copying response''\<rparr> s5
                                  in (embedded wrapped2, s6))
                               else
                                 (embedded wrapped1,
                                  s4\<lparr>metrics := IncResponse (metrics s4)\<rparr>)))))"

text \<open>The handler that \<open>createHandler\<close> registers for the route \<open>/\<close>.\<close>

definition createHandler :: "Env \<Rightarrow> Handler" where
  "createHandler env =
     Chain (ServeHTTP env) [RateLimiter_Middleware, CircuitBreaker_Middleware, Logging]"

section \<open>Sample inputs\<close>

text \<open>The inputs at which the theorems below are evaluated: a request with a query
  string, a header and a body, a connection nothing has been written to (its sniffer
  answers plain text, as \<open>http.DetectContentType\<close> does for the bodies written here:
  they match none of its signatures and have no binary byte), a backend
  response with a status and a header of its own, a server at clock reading 0, and the
  tracker with an Open record for the host of the sample request.\<close>

definition sample_request :: Request where
  "sample_request =
     \<lparr>Method = ''GET'', URL_Path = ''/api'', URL_RawQuery = ''a=1'',
      URL_Host = ''example.com'', Header = [(''Authorization'', ''secret'')],
      Body = ''hello''\<rparr>"

definition fresh_conn :: writer where
  "fresh_conn =
     Conn \<lparr>handlerHeader = [], wroteHeader = None, written = [],
           detectContentType = (\<lambda>p. ''text/plain; charset=utf-8'')\<rparr>"

definition sample_response :: Response where
  "sample_response =
     \<lparr>resp_StatusCode = 404, resp_Header = [(''Content-Type'', ''application/json'')],
      resp_Body = ''{}''\<rparr>"

definition sample_env :: "Response option \<Rightarrow> nat option \<Rightarrow> Env" where
  "sample_env answer failure =
     \<lparr>validRequest = \<lambda>m u. True, roundTrip = \<lambda>q. answer, copyFailure = failure\<rparr>"

definition sample_server :: "int \<Rightarrow> string list \<Rightarrow> CircuitBreaker \<Rightarrow> Server" where
  "sample_server rateLimit bs cb =
     \<lparr>metrics = New_Metrics, limiter = \<lparr>timestamps = [], rps = rateLimit\<rparr>, lb = New bs,
      circuitBreak = cb, logged = [], sent = [], clock = \<lambda>i. 0, ticks = 0\<rparr>"

definition open_breaker :: CircuitBreaker where
  "open_breaker =
     NewCircuitBreaker\<lparr>cb_backends :=
       [''example.com'' \<mapsto> \<lparr>state = StateOpen, failureCount = 5, lastFailureTime = 0\<rparr>]\<rparr>"

section \<open>The circuit breaker: opening, timeout and success\<close>

lemma IsBackendOpen_blocked:
  "cb_backends cb b = Some st \<Longrightarrow> state st = StateOpen \<Longrightarrow>
   Since t (lastFailureTime st) \<le> timeout cb \<Longrightarrow> IsBackendOpen t b cb = (True, cb)"
  by (simp add: IsBackendOpen_def)

lemma IsBackendOpen_not_Open:
  "cb_backends cb b = Some st \<Longrightarrow> state st \<noteq> StateOpen \<Longrightarrow> IsBackendOpen t b cb = (False, cb)"
  by (simp add: IsBackendOpen_def)

lemma IsBackendOpen_run_blocked:
  "cb_backends cb b = Some st \<Longrightarrow> state st = StateOpen \<Longrightarrow>
   \<forall>t\<in>set ts. Since t (lastFailureTime st) \<le> timeout cb \<Longrightarrow>
   IsBackendOpen_run ts b cb = (map (\<lambda>_. True) ts, cb)"
  by (induction ts) (simp_all add: IsBackendOpen_blocked)

lemma IsBackendOpen_run_not_Open:
  "cb_backends cb b = Some st \<Longrightarrow> state st \<noteq> StateOpen \<Longrightarrow>
   IsBackendOpen_run ts b cb = (map (\<lambda>_. False) ts, cb)"
  by (induction ts) (simp_all add: IsBackendOpen_not_Open)

lemma IsBackendOpen_run_append:
  "IsBackendOpen_run (xs @ ys) b cb =
     (let (rs, cb1) = IsBackendOpen_run xs b cb;
          (rs', cb2) = IsBackendOpen_run ys b cb1
      in (rs @ rs', cb2))"
  by (induction xs arbitrary: cb) (simp_all add: split_beta Let_def)

text \<open>
  Claim C3. \<open>OnBackendFailure\<close> adds exactly one to the backend's \<open>failureCount\<close>
  (starting from 0 for a backend without a record). Whenever the count it leaves has
  reached \<open>failureThreshold\<close>, the state it leaves is Open, whatever the state was
  before (so in particular from Closed), and every availability check that follows while
  no more than \<open>timeout\<close> has passed since the failure reports the backend blocked,
  that is not available, and changes nothing.
\<close>

theorem OnBackendFailure_opens:
  assumes after: "cb_backends (OnBackendFailure t0 b cb) b = Some st'"
    and reach: "sint (failureThreshold cb) \<le> sint (failureCount st')"
    and soon: "\<forall>t\<in>set ts. Since t t0 \<le> timeout cb"
  shows "failureCount st' =
           (case cb_backends cb b of None \<Rightarrow> 0 | Some st \<Rightarrow> failureCount st) + 1
         \<and> state st' = StateOpen
         \<and> IsBackendOpen_run ts b (OnBackendFailure t0 b cb)
             = (map (\<lambda>_. True) ts, OnBackendFailure t0 b cb)"
proof -
  have cnt: "failureCount st' =
      (case cb_backends cb b of None \<Rightarrow> 0 | Some st \<Rightarrow> failureCount st) + 1"
    using after by (auto simp: OnBackendFailure_def Let_def newBackendState_def split: option.splits if_splits)
  have lft: "lastFailureTime st' = t0"
    using after by (auto simp: OnBackendFailure_def Let_def split: option.splits if_splits)
  have thr: "timeout (OnBackendFailure t0 b cb) = timeout cb"
    by (simp add: OnBackendFailure_def Let_def)
  have opn: "state st' = StateOpen"
    using after reach by (auto simp: OnBackendFailure_def Let_def split: option.splits if_splits)
  have soon': "\<forall>t\<in>set ts. Since t (lastFailureTime st') \<le> timeout (OnBackendFailure t0 b cb)"
    using soon by (simp only: lft thr)
  have "IsBackendOpen_run ts b (OnBackendFailure t0 b cb)
             = (map (\<lambda>_. True) ts, OnBackendFailure t0 b cb)"
    using after opn soon' by (rule IsBackendOpen_run_blocked)
  with cnt opn show ?thesis by simp
qed

text \<open>
  Claim C4. For an Open backend, every check made while the time since
  \<open>lastFailureTime\<close> is at most \<open>timeout\<close> reports it blocked and leaves the tracker
  as it is; the first check strictly after the timeout reports it available and moves it
  to HalfOpen; every later check, at any reading of the clock, reports it available and
  leaves it HalfOpen, with \<open>failureCount\<close> and \<open>lastFailureTime\<close> untouched.
\<close>

theorem IsBackendOpen_timeout:
  assumes rec: "cb_backends cb b = Some st" and opn: "state st = StateOpen"
    and early: "\<forall>t\<in>set early. Since t (lastFailureTime st) \<le> timeout cb"
    and late: "timeout cb < Since t1 (lastFailureTime st)"
  shows "IsBackendOpen_run (early @ t1 # later) b cb =
           (map (\<lambda>_. True) early @ False # map (\<lambda>_. False) later,
            cb\<lparr>cb_backends := (cb_backends cb)(b \<mapsto> st\<lparr>state := StateHalfOpen\<rparr>)\<rparr>)"
proof -
  let ?cb' = "cb\<lparr>cb_backends := (cb_backends cb)(b \<mapsto> st\<lparr>state := StateHalfOpen\<rparr>)\<rparr>"
  have 1: "IsBackendOpen_run early b cb = (map (\<lambda>_. True) early, cb)"
    using rec opn early by (rule IsBackendOpen_run_blocked)
  have 2: "IsBackendOpen t1 b cb = (False, ?cb')"
    using rec opn late by (simp add: IsBackendOpen_def)
  have 3: "IsBackendOpen_run later b ?cb' = (map (\<lambda>_. False) later, ?cb')"
    by (rule IsBackendOpen_run_not_Open [where st = "st\<lparr>state := StateHalfOpen\<rparr>"]) simp_all
  show ?thesis
    by (simp add: IsBackendOpen_run_append 1 2 3)
qed

text \<open>
  Claim C9, as the code has it. If the tracker holds a record for the backend,
  \<open>OnBackendSuccess\<close> sets its \<open>failureCount\<close> to 0, moves a HalfOpen state to Closed
  and leaves any other state and \<open>lastFailureTime\<close> as they are. If it holds none, the
  call returns at once and creates none. The records of other backends are not touched.
\<close>

theorem OnBackendSuccess_record:
  "(\<forall>st. cb_backends cb b = Some st \<longrightarrow>
      (\<exists>st'. cb_backends (OnBackendSuccess b cb) b = Some st'
         \<and> failureCount st' = 0
         \<and> state st' = (if state st = StateHalfOpen then StateClosed else state st)
         \<and> lastFailureTime st' = lastFailureTime st))
   \<and> (cb_backends cb b = None \<longrightarrow> OnBackendSuccess b cb = cb)
   \<and> (\<forall>b'. b' \<noteq> b \<longrightarrow> cb_backends (OnBackendSuccess b cb) b' = cb_backends cb b')"
  by (auto simp: OnBackendSuccess_def Let_def split: option.splits)

text \<open>
  Claim C9 as stated fails: after a success reported for a backend that the tracker has
  never seen, the tracker still holds no record for it.
\<close>

theorem OnBackendSuccess_no_record:
  "cb_backends (OnBackendSuccess ''http://localhost:8080'' NewCircuitBreaker)
     ''http://localhost:8080'' = None"
  by (simp add: OnBackendSuccess_def NewCircuitBreaker_def)

text \<open>A backend with four failures fails a fifth time
  under the default threshold 5 and timeout 10s.\<close>

theorem OnBackendFailure_opens_witness:
  "IsBackendOpen_run [100, 2 * Second] ''a''
     (OnBackendFailure 100 ''a''
        (NewCircuitBreaker\<lparr>cb_backends :=
           [''a'' \<mapsto> \<lparr>state = StateClosed, failureCount = 4, lastFailureTime = 0\<rparr>]\<rparr>))
   = ([True, True],
      NewCircuitBreaker\<lparr>cb_backends :=
           [''a'' \<mapsto> \<lparr>state = StateOpen, failureCount = 5, lastFailureTime = 100\<rparr>]\<rparr>)"
  using OnBackendFailure_opens
    [of 100 "''a''"
        "NewCircuitBreaker\<lparr>cb_backends :=
           [''a'' \<mapsto> \<lparr>state = StateClosed, failureCount = 4, lastFailureTime = 0\<rparr>]\<rparr>"
        "\<lparr>state = StateOpen, failureCount = 5, lastFailureTime = 100\<rparr>"
        "[100, 2 * Second]"]
  by (simp add: OnBackendFailure_def NewCircuitBreaker_def Since_def Second_def
        minDuration_def maxDuration_def)

text \<open>Checks at 3s, 10s, 11s, 12s and 5s after the
  last failure, under the default timeout of 10s.\<close>

theorem IsBackendOpen_timeout_witness:
  "IsBackendOpen_run [3 * Second, 10 * Second, 11 * Second, 12 * Second, 5 * Second] ''a''
     (NewCircuitBreaker\<lparr>cb_backends :=
        [''a'' \<mapsto> \<lparr>state = StateOpen, failureCount = 5, lastFailureTime = 0\<rparr>]\<rparr>)
   = ([True, True, False, False, False],
      NewCircuitBreaker\<lparr>cb_backends :=
        [''a'' \<mapsto> \<lparr>state = StateHalfOpen, failureCount = 5, lastFailureTime = 0\<rparr>]\<rparr>)"
  using IsBackendOpen_timeout
    [of "NewCircuitBreaker\<lparr>cb_backends :=
           [''a'' \<mapsto> \<lparr>state = StateOpen, failureCount = 5, lastFailureTime = 0\<rparr>]\<rparr>"
        "''a''" "\<lparr>state = StateOpen, failureCount = 5, lastFailureTime = 0\<rparr>"
        "[3 * Second, 10 * Second]" "11 * Second" "[12 * Second, 5 * Second]"]
  by (simp add: NewCircuitBreaker_def Since_def Second_def minDuration_def maxDuration_def)

text \<open>A success on a HalfOpen backend with three failures, which leaves the other
  backends alone, and a success on a tracker without records.\<close>

theorem OnBackendSuccess_record_witness:
  "(\<exists>st'. cb_backends
           (OnBackendSuccess ''a''
              (NewCircuitBreaker\<lparr>cb_backends :=
                 [''a'' \<mapsto> \<lparr>state = StateHalfOpen, failureCount = 3, lastFailureTime = 7\<rparr>]\<rparr>))
           ''a'' = Some st'
         \<and> failureCount st' = 0 \<and> state st' = StateClosed \<and> lastFailureTime st' = 7)
   \<and> OnBackendSuccess ''a'' NewCircuitBreaker = NewCircuitBreaker
   \<and> cb_backends
         (OnBackendSuccess ''a''
            (NewCircuitBreaker\<lparr>cb_backends :=
               [''a'' \<mapsto> \<lparr>state = StateHalfOpen, failureCount = 3, lastFailureTime = 7\<rparr>]\<rparr>))
         ''b'' = None"
  using OnBackendSuccess_record
    [of "NewCircuitBreaker\<lparr>cb_backends :=
           [''a'' \<mapsto> \<lparr>state = StateHalfOpen, failureCount = 3, lastFailureTime = 7\<rparr>]\<rparr>"
        "''a''"]
    OnBackendSuccess_record [of NewCircuitBreaker "''a''"]
  by (simp add: NewCircuitBreaker_def)

section \<open>The rate limiter: the sliding window\<close>

text \<open>The compaction loop keeps, in order, exactly the entries that are
  after the window start: the first \<open>valid\<close> cells of the array it returns are the
  cells kept before, followed by the later entries that pass the test.\<close>

lemma prune_take:
  "valid \<le> i \<Longrightarrow>
   (case prune window arr i valid of
      (arr', v') \<Rightarrow> take v' arr' = take valid arr @ filter (\<lambda>t. window < t) (drop i arr))"
proof (induction window arr i valid rule: prune.induct)
  case (1 window arr i valid)
  show ?case
  proof (cases "i < length arr")
    case False
    then show ?thesis by (simp add: prune.simps)
  next
    case inr: True
    have dr: "drop i arr = arr ! i # drop (Suc i) arr"
      using inr by (simp add: Cons_nth_drop_Suc)
    show ?thesis
    proof (cases "window < arr ! i")
      case keep: True
      have vl: "valid < length arr" using inr "1.prems" by simp
      have "case prune window (arr[valid := arr ! i]) (Suc i) (Suc valid) of
              (arr', v') \<Rightarrow> take v' arr' =
                 take (Suc valid) (arr[valid := arr ! i])
                 @ filter (\<lambda>t. window < t) (drop (Suc i) (arr[valid := arr ! i]))"
        using "1.IH"(1) [OF inr refl keep] "1.prems" by simp
      moreover have "take (Suc valid) (arr[valid := arr ! i]) = take valid arr @ [arr ! i]"
        using vl by (simp add: take_Suc_conv_app_nth)
      moreover have "drop (Suc i) (arr[valid := arr ! i]) = drop (Suc i) arr"
        using "1.prems" by simp
      ultimately show ?thesis
        using inr keep by (subst prune.simps) (simp add: dr)
    next
      case drop: False
      have "case prune window arr (Suc i) valid of
              (arr', v') \<Rightarrow> take v' arr' =
                 take valid arr @ filter (\<lambda>t. window < t) (drop (Suc i) arr)"
        using "1.IH"(2) [OF inr refl drop] "1.prems" by simp
      then show ?thesis
        using inr drop by (subst prune.simps) (simp add: dr)
    qed
  qed
qed

lemma Allow_filter:
  "Allow now rl =
     (let kept = filter (\<lambda>t. now - Second < t) (timestamps rl)
      in if int (length kept) < rps rl
         then (True, rl\<lparr>timestamps := kept @ [now]\<rparr>)
         else (False, rl\<lparr>timestamps := kept\<rparr>))"
proof -
  obtain arr v where pr: "prune (now - Second) (timestamps rl) 0 0 = (arr, v)"
    by (cases "prune (now - Second) (timestamps rl) 0 0")
  have eq: "take v arr = filter (\<lambda>t. now - Second < t) (timestamps rl)"
    using prune_take [where valid = 0 and i = 0 and window = "now - Second" and arr = "timestamps rl"]
    by (simp add: pr)
  have len: "min (length arr) v = length (filter (\<lambda>t. now - Second < t) (timestamps rl))"
    using arg_cong [OF eq, of length] by simp
  show ?thesis
    by (simp add: Allow_def Let_def pr eq len)
qed

lemma length_filter_imp:
  "(\<And>x. P x \<Longrightarrow> Q x) \<Longrightarrow> length (filter P xs) \<le> length (filter Q xs)"
  by (induction xs) auto

lemma filter_filter_imp:
  "(\<And>x. P x \<Longrightarrow> Q x) \<Longrightarrow> filter P (filter Q xs) = filter P xs"
  by (induction xs) auto

lemma Second_pos: "0 < Second"
  by (simp add: Second_def)

text \<open>The invariant of a run of calls. \<open>A\<close> lists the calls admitted
  so far; the limiter retains those of them after \<open>lo\<close>, and no later call has a window
  that starts before \<open>lo\<close>.\<close>

lemma Allow_run_window:
  "timestamps rl = filter (\<lambda>t. lo < t) A \<Longrightarrow>
   (\<And>T. int (length (in_window T A)) \<le> rps rl) \<Longrightarrow>
   sorted calls \<Longrightarrow> (\<And>t. t \<in> set calls \<Longrightarrow> lo \<le> t - Second) \<Longrightarrow>
   int (length (in_window T (A @ fst (Allow_run calls rl)))) \<le> rps rl"
proof (induction calls arbitrary: rl A lo)
  case Nil
  then show ?case by simp
next
  case (Cons now ts)
  let ?kept = "filter (\<lambda>t. now - Second < t) (timestamps rl)"
  have lo: "lo \<le> now - Second" using Cons.prems(4) by simp
  have kept: "?kept = filter (\<lambda>t. now - Second < t) A"
    unfolding Cons.prems(1) using lo by (intro filter_filter_imp) simp
  have later: "\<And>t. t \<in> set ts \<Longrightarrow> now - Second \<le> t - Second"
    using Cons.prems(3) by simp
  have sorted: "sorted ts" using Cons.prems(3) by simp
  show ?case
  proof (cases "int (length ?kept) < rps rl")
    case adm: True
    let ?rl1 = "rl\<lparr>timestamps := ?kept @ [now]\<rparr>"
    have step: "Allow now rl = (True, ?rl1)"
      using adm by (simp add: Allow_filter Let_def)
    have ts1: "timestamps ?rl1 = filter (\<lambda>t. now - Second < t) (A @ [now])"
      using Second_pos by (simp add: kept)
    have bound: "int (length (in_window U (A @ [now]))) \<le> rps ?rl1" for U
    proof (cases "U - Second < now \<and> now \<le> U")
      case False
      then have "in_window U (A @ [now]) = in_window U A"
        by (auto simp: in_window_def)
      then show ?thesis using Cons.prems(2) [of U] by simp
    next
      case True
      have "length (in_window U A) \<le> length (filter (\<lambda>t. now - Second < t) A)"
        unfolding in_window_def using True by (intro length_filter_imp) simp
      then have "int (length (in_window U A)) < rps rl"
        using adm kept by simp
      moreover have "in_window U (A @ [now]) = in_window U A @ [now]"
        using True by (simp add: in_window_def)
      ultimately show ?thesis by simp
    qed
    have "int (length (in_window T ((A @ [now]) @ fst (Allow_run ts ?rl1)))) \<le> rps ?rl1"
      using ts1 bound sorted later by (rule Cons.IH)
    then show ?thesis
      by (simp add: step split_beta)
  next
    case den: False
    let ?rl1 = "rl\<lparr>timestamps := ?kept\<rparr>"
    have step: "Allow now rl = (False, ?rl1)"
      using den by (simp add: Allow_filter Let_def)
    have ts1: "timestamps ?rl1 = filter (\<lambda>t. now - Second < t) A"
      by (simp add: kept)
    have bound: "int (length (in_window U A)) \<le> rps ?rl1" for U
      using Cons.prems(2) [of U] by simp
    have "int (length (in_window T (A @ fst (Allow_run ts ?rl1)))) \<le> rps ?rl1"
      using ts1 bound sorted later by (rule Cons.IH)
    then show ?thesis
      by (simp add: step split_beta)
  qed
qed

text \<open>
  Claim C5. Take a limiter built by \<open>NewRateLimiter N\<close> and any sequence of \<open>Allow\<close>
  calls whose clock readings do not decrease. For every instant \<open>T\<close>, at most \<open>N\<close> of
  the admitted calls have a reading in the trailing window \<open>(T - 1s, T]\<close>. Each call
  keeps exactly the retained timestamps that are after \<open>now - 1s\<close> (so it drops every
  older one, and one that is exactly one second old), then admits and appends \<open>now\<close> if
  fewer than \<open>rps\<close> remain, and refuses otherwise; after an admission the retained
  sequence has at most \<open>rps\<close> entries.
\<close>

theorem Allow_window:
  assumes new: "NewRateLimiter N = Some rl0" and mono: "sorted calls"
  shows "int (length (in_window T (fst (Allow_run calls rl0)))) \<le> N
         \<and> (\<forall>now rl. Allow now rl =
               (let kept = filter (\<lambda>t. now - Second < t) (timestamps rl)
                in if int (length kept) < rps rl
                   then (True, rl\<lparr>timestamps := kept @ [now]\<rparr>)
                   else (False, rl\<lparr>timestamps := kept\<rparr>)))
         \<and> (\<forall>now rl. fst (Allow now rl) \<longrightarrow>
               int (length (timestamps (snd (Allow now rl)))) \<le> rps rl)"
proof -
  have rl0: "rl0 = \<lparr>timestamps = [], rps = N\<rparr>" and N: "0 \<le> N"
    using new by (auto simp: NewRateLimiter_def split: if_splits)
  have "int (length (in_window T ([] @ fst (Allow_run calls rl0)))) \<le> rps rl0"
  proof (cases calls)
    case Nil
    then show ?thesis using N by (simp add: rl0 in_window_def)
  next
    case (Cons t0 ts)
    have "timestamps rl0 = filter (\<lambda>t. t0 - 2 * Second < t) []" by (simp add: rl0)
    moreover have "int (length (in_window U [])) \<le> rps rl0" for U
      using N by (simp add: rl0 in_window_def)
    moreover have "t0 - 2 * Second \<le> t - Second" if "t \<in> set calls" for t
      using that mono Second_pos by (auto simp: Cons)
    ultimately show ?thesis using mono by (intro Allow_run_window) 
  qed
  then have 1: "int (length (in_window T (fst (Allow_run calls rl0)))) \<le> N"
    by (simp add: rl0)
  have 3: "int (length (timestamps (snd (Allow now rl)))) \<le> rps rl" if "fst (Allow now rl)" for now rl
    using that by (simp add: Allow_filter Let_def split: if_splits)
  show ?thesis
    using 1 3 Allow_filter by blast
qed

text \<open>A limit of 2: three calls at the same instant, one just
  under a second later and one a full second later.\<close>

theorem Allow_window_witness:
  "fst (Allow_run [0, 0, 0, Second - 1, Second] \<lparr>timestamps = [], rps = 2\<rparr>) = [0, 0, Second]
   \<and> int (length (in_window Second
          (fst (Allow_run [0, 0, 0, Second - 1, Second] \<lparr>timestamps = [], rps = 2\<rparr>)))) \<le> 2
   \<and> fst (Allow 0 \<lparr>timestamps = [0], rps = 2\<rparr>)
   \<and> int (length (timestamps (snd (Allow 0 \<lparr>timestamps = [0], rps = 2\<rparr>)))) \<le> 2"
  using Allow_window [of 2 "\<lparr>timestamps = [], rps = 2\<rparr>" "[0, 0, 0, Second - 1, Second]" Second]
  by (simp add: NewRateLimiter_def Allow_filter Second_def)

section \<open>The load balancer: rotation\<close>

lemma IsBackendOpen_keeps_available:
  "\<not> fst (IsBackendOpen t b cb) \<Longrightarrow> \<not> fst (IsBackendOpen t' b' cb) \<Longrightarrow>
   \<not> fst (IsBackendOpen t' b' (snd (IsBackendOpen t b cb)))"
  by (auto simp: IsBackendOpen_def newBackendState_def split: option.splits if_splits)

lemma Next_empty: "lb_backends b = [] \<Longrightarrow> Next clk b cb = ([], b, cb)"
  by (simp add: Next_def)

lemma Next_current:
  "lb_backends b \<noteq> [] \<Longrightarrow>
   current (fst (snd (Next clk b cb))) = current b + 1
   \<and> lb_backends (fst (snd (Next clk b cb))) = lb_backends b"
  by (simp add: Next_def Let_def split_beta)

lemma Next_first_available:
  assumes ne: "lb_backends b \<noteq> []"
    and av: "\<not> fst (IsBackendOpen (clk 0)
                 (lb_backends b ! unat ((current b + 1) mod of_nat (length (lb_backends b)))) cb)"
  shows "Next clk b cb =
           (lb_backends b ! unat ((current b + 1) mod of_nat (length (lb_backends b))),
            b\<lparr>current := current b + 1\<rparr>,
            snd (IsBackendOpen (clk 0)
                 (lb_backends b ! unat ((current b + 1) mod of_nat (length (lb_backends b)))) cb))"
  using ne av
  by (simp add: Next_def Let_def Next_loop.simps [of clk "lb_backends b" "current b + 1" 0]
      split_beta)

lemma index_no_wrap:
  fixes c :: "64 word"
  assumes "unat c + 1 < 2 ^ 64" and "K < 2 ^ 64"
  shows "unat (c + 1) = unat c + 1"
    and "unat ((c + 1) mod of_nat K) = (unat c + 1) mod K"
proof -
  have K: "unat (of_nat K :: 64 word) = K"
    using assms by (simp add: unat_of_nat)
  have "unat c + unat (1 :: 64 word) < 2 ^ LENGTH(64)"
    using assms by simp
  then have "unat (c + 1) = unat c + unat (1 :: 64 word)"
    by (simp only: unat_add_lem)
  then show "unat (c + 1) = unat c + 1" by simp
  then show "unat ((c + 1) mod of_nat K) = (unat c + 1) mod K"
    by (simp add: unat_mod K)
qed

text \<open>While the counter does not wrap and every backend is
  reported available, call number \<open>j\<close> of a run returns the pool entry at position
  \<open>(current + 1 + j) mod K\<close>.\<close>

lemma Next_run_available:
  "lb_backends b \<noteq> [] \<Longrightarrow> length (lb_backends b) < 2 ^ 64 \<Longrightarrow>
   unat (current b) + length clks < 2 ^ 64 \<Longrightarrow>
   (\<And>x clk i. x \<in> set (lb_backends b) \<Longrightarrow> clk \<in> set clks \<Longrightarrow>
      \<not> fst (IsBackendOpen (clk i) x cb)) \<Longrightarrow>
   fst (Next_run clks b cb) =
     map (\<lambda>j. lb_backends b ! ((unat (current b) + 1 + j) mod length (lb_backends b)))
       [0..<length clks]"
proof (induction clks arbitrary: b cb)
  case Nil
  then show ?case by simp
next
  case (Cons clk clks)
  let ?bs = "lb_backends b"
  let ?K = "length ?bs"
  let ?x = "?bs ! ((unat (current b) + 1) mod ?K)"
  have K: "0 < ?K" using Cons.prems(1) by simp
  have room: "unat (current b) + 1 + length clks < 2 ^ 64"
    using Cons.prems(3) by simp
  then have one: "unat (current b) + 1 < 2 ^ 64"
    by linarith
  note nw = index_no_wrap [OF one Cons.prems(2)]
  have xin: "?x \<in> set ?bs" using K by simp
  have av: "\<not> fst (IsBackendOpen (clk 0) ?x cb)"
    using Cons.prems(4) [OF xin, of clk 0] by simp
  let ?b1 = "b\<lparr>current := current b + 1\<rparr>"
  let ?cb1 = "snd (IsBackendOpen (clk 0) ?x cb)"
  have step: "Next clk b cb = (?x, ?b1, ?cb1)"
    using Next_first_available [OF Cons.prems(1), of clk cb] av by (simp add: nw(2))
  have cur: "unat (current ?b1) = unat (current b) + 1"
    using nw(1) by simp
  have rest: "fst (Next_run clks ?b1 ?cb1) =
     map (\<lambda>j. lb_backends ?b1 ! ((unat (current ?b1) + 1 + j) mod length (lb_backends ?b1)))
       [0..<length clks]"
  proof (rule Cons.IH)
    show "lb_backends ?b1 \<noteq> []" using Cons.prems(1) by simp
    show "length (lb_backends ?b1) < 2 ^ 64" using Cons.prems(2) by simp
    show "unat (current ?b1) + length clks < 2 ^ 64"
      using room by (simp only: cur)
    show "\<not> fst (IsBackendOpen (c i) y ?cb1)"
      if "y \<in> set (lb_backends ?b1)" "c \<in> set clks" for y c i
      using that av Cons.prems(4) [of y c i]
      by (intro IsBackendOpen_keeps_available) simp_all
  qed
  have "[0..<length (clk # clks)] = 0 # map Suc [0..<length clks]"
    by (simp add: upt_conv_Cons map_Suc_upt del: upt_Suc)
  then show ?case
    using rest by (simp add: step split_beta nw(1) comp_def del: upt_Suc)
qed

lemma rotation_list:
  assumes "0 < length xs"
  shows "map (\<lambda>j. xs ! ((c + j) mod length xs)) [0..<length xs] = rotate (c mod length xs) xs"
proof (rule nth_equalityI)
  show "length (map (\<lambda>j. xs ! ((c + j) mod length xs)) [0..<length xs])
        = length (rotate (c mod length xs) xs)" by simp
next
  fix i assume "i < length (map (\<lambda>j. xs ! ((c + j) mod length xs)) [0..<length xs])"
  then have i: "i < length xs" by simp
  then show "map (\<lambda>j. xs ! ((c + j) mod length xs)) [0..<length xs] ! i
             = rotate (c mod length xs) xs ! i"
    by (simp add: nth_rotate mod_add_left_eq)
qed

lemma mset_rotate_eq: "mset (rotate n xs) = mset xs"
proof -
  have "mset (drop k xs @ take k xs) = mset (take k xs @ drop k xs)" for k
    by (simp only: mset_append add.commute)
  then show ?thesis
    by (simp add: rotate_drop_take)
qed

text \<open>
  Claim C6, as the code has it. For a pool of \<open>K \<ge> 1\<close> backends that the tracker reports
  available at every check, and a counter that does not pass \<open>2^64\<close> during the calls,
  \<open>K\<close> consecutive \<open>Next\<close> calls return the pool rotated to start at position
  \<open>(current + 1) mod K\<close>: every backend exactly once, in rotation order. Every \<open>Next\<close>
  call on a non-empty pool adds exactly one to the counter (modulo \<open>2^64\<close>), whatever it
  returns; a call on an empty pool leaves the counter as it is.
\<close>

theorem Next_rotation:
  assumes ne: "lb_backends b \<noteq> []"
    and calls: "length clks = length (lb_backends b)"
    and room: "unat (current b) + length (lb_backends b) < 2 ^ 64"
    and avail: "\<forall>x\<in>set (lb_backends b). \<forall>clk\<in>set clks. \<forall>i. \<not> fst (IsBackendOpen (clk i) x cb)"
  shows "fst (Next_run clks b cb)
           = rotate ((unat (current b) + 1) mod length (lb_backends b)) (lb_backends b)
         \<and> mset (fst (Next_run clks b cb)) = mset (lb_backends b)
         \<and> (\<forall>clk' b' cb'. current (fst (snd (Next clk' b' cb'))) =
               (if lb_backends b' = [] then current b' else current b' + 1))"
proof -
  have K: "0 < length (lb_backends b)" using ne by simp
  have small: "length (lb_backends b) < 2 ^ 64" using room by linarith
  have "fst (Next_run clks b cb) =
     map (\<lambda>j. lb_backends b ! ((unat (current b) + 1 + j) mod length (lb_backends b)))
       [0..<length clks]"
    using ne small room avail by (intro Next_run_available) (simp_all add: calls)
  then have rot: "fst (Next_run clks b cb)
           = rotate ((unat (current b) + 1) mod length (lb_backends b)) (lb_backends b)"
    using rotation_list [OF K, of "unat (current b) + 1"] by (simp add: calls)
  have cnt: "current (fst (snd (Next clk' b' cb'))) =
               (if lb_backends b' = [] then current b' else current b' + 1)" for clk' b' cb'
    using Next_current [of b' clk' cb'] by (simp add: Next_empty)
  from rot have "mset (fst (Next_run clks b cb)) = mset (lb_backends b)"
    by (simp only: mset_rotate_eq)
  with rot cnt show ?thesis by blast
qed

text \<open>Three calls on a fresh pool of three.\<close>

theorem Next_rotation_witness:
  "fst (Next_run [\<lambda>i. 0, \<lambda>i. 0, \<lambda>i. 0] (New [''a'', ''b'', ''c'']) NewCircuitBreaker)
     = [''b'', ''c'', ''a'']"
  using Next_rotation [of "New [''a'', ''b'', ''c'']" "[\<lambda>i. 0, \<lambda>i. 0, \<lambda>i. 0]" NewCircuitBreaker]
  by (simp add: New_def NewCircuitBreaker_def IsBackendOpen_def)

text \<open>
  Claim C6 as stated fails: a \<open>Next\<close> call on an empty pool returns before the counter is
  touched. And where the \<open>uint64\<close> counter wraps, the rotation skips: a pool of three at
  counter \<open>2^64 - 2\<close> returns its first backend twice in three calls.
\<close>

theorem Next_counter_counterexample:
  "current (fst (snd (Next (\<lambda>i. 0) (New []) NewCircuitBreaker))) \<noteq> current (New []) + 1
   \<and> fst (Next_run [\<lambda>i. 0, \<lambda>i. 0, \<lambda>i. 0]
            \<lparr>lb_backends = [''a'', ''b'', ''c''], current = - 2\<rparr> NewCircuitBreaker)
       = [''a'', ''a'', ''b'']"
  by (simp add: Next_def New_def NewCircuitBreaker_def IsBackendOpen_def newBackendState_def
        Next_loop.simps Let_def)

section \<open>The pipeline and the proxy handler\<close>

text \<open>\<open>Chain\<close> applies the middleware from the last to the first, so
  the first of the slice ends up outermost.\<close>

lemma Chain_loop_foldr:
  "n \<le> length ms \<Longrightarrow> Chain_loop h ms n = foldr (\<lambda>m g. m g) (take n ms) h"
proof (induction n arbitrary: h)
  case 0
  then show ?case by simp
next
  case (Suc n)
  then have "take (Suc n) ms = take n ms @ [ms ! n]"
    by (simp add: take_Suc_conv_app_nth)
  with Suc show ?case by simp
qed

lemma Chain_foldr: "Chain h ms = foldr (\<lambda>m g. m g) ms h"
  by (simp add: Chain_def Chain_loop_foldr)

text \<open>
  Claim C2, as the code has it. \<open>Chain\<close> makes the first middleware it is given the
  outermost, and \<open>createHandler\<close> gives it the rate limiter, the circuit breaker and the
  logger in this order: the handler of the proxy route is the rate limiter around the
  circuit breaker around the logger around \<open>ProxyHandler.ServeHTTP\<close>.
\<close>

theorem createHandler_order:
  "Chain h [m0, m1, m2] = m0 (m1 (m2 h))
   \<and> createHandler env =
       RateLimiter_Middleware (CircuitBreaker_Middleware (Logging (ServeHTTP env)))"
  by (simp add: createHandler_def Chain_foldr)

text \<open>
  Claim C2 as stated fails: the handler is not the logger around the circuit breaker
  around the rate limiter. On a server whose limit is 0 the handler rejects a request with
  429 and logs the error only, since the logger is never reached; the composition of the
  claim would log the access line too.
\<close>

theorem createHandler_order_counterexample:
  "createHandler (sample_env None None)
   \<noteq> Logging (CircuitBreaker_Middleware (RateLimiter_Middleware
         (ServeHTTP (sample_env None None))))"
proof
  let ?E = "sample_env None None"
  let ?s = "sample_server 0 [''http://localhost:8080''] NewCircuitBreaker"
  assume eq: "createHandler ?E
    = Logging (CircuitBreaker_Middleware (RateLimiter_Middleware (ServeHTTP ?E)))"
  have actual: "logged (snd (createHandler ?E sample_request fresh_conn ?s))
      = [ErrorLog ''Rate limit exceeded'' 429]"
    by (simp add: createHandler_def Chain_foldr RateLimiter_Middleware_def time_Now_def
        Allow_def prune.simps HandleError_def Let_def sample_server_def)
  have claimed: "logged (snd (Logging (CircuitBreaker_Middleware (RateLimiter_Middleware
        (ServeHTTP ?E))) sample_request fresh_conn ?s))
      = [ErrorLog ''Rate limit exceeded'' 429, AccessLog ''GET'' ''/api'' 429 0]"
    by (simp add: RateLimiter_Middleware_def CircuitBreaker_Middleware_def Logging_def
        time_Now_def Allow_def prune.simps HandleError_def http_Error_def conn_Write_def sniffContentType_def bodyAllowedForStatus_def Let_def
        IsBackendOpen_def NewCircuitBreaker_def OnBackendSuccess_def newBackendState_def
        Since_def minDuration_def maxDuration_def
        sample_server_def sample_request_def fresh_conn_def)
  from actual claimed show False
    by (simp only: eq) simp
qed

lemma embedded_http_Error:
  "embedded (http_Error m c (ResponseWriter w sc)) = http_Error m c w"
  by (simp add: http_Error_def Let_def)

lemma conn_of_Write: "conn_of (Write bs w) = conn_Write bs (conn_of w)"
  by (induction w) simp_all

lemma written_Write: "written (conn_of (Write bs w)) = written (conn_of w) @ bs"
  by (simp add: conn_of_Write conn_Write_def Let_def)

text \<open>
  What \<open>CircuitBreaker.Middleware\<close> does once the check at its entry has let the request
  through: the inner handler runs on a fresh \<open>ResponseWriter\<close>; when it has returned
  (\<open>wrapped\<close> and \<open>s3\<close> are the writer and the state it leaves), a failure is reported
  if the recorded \<open>StatusCode\<close> is 500 or more, and a success otherwise. The key of the
  report is \<open>r.URL.Host\<close>, the host of the URL of the inbound request.
\<close>

lemma CircuitBreaker_Middleware_reports:
  assumes pass: "\<not> fst (IsBackendOpen (clock s (ticks s)) (URL_Host r) (circuitBreak s))"
    and inner: "next r (ResponseWriter w 0)
                  (s\<lparr>ticks := Suc (ticks s),
                     circuitBreak :=
                       snd (IsBackendOpen (clock s (ticks s)) (URL_Host r) (circuitBreak s))\<rparr>)
                = (wrapped, s3)"
  shows "circuitBreak (snd (CircuitBreaker_Middleware next r w s)) =
           (if 500 \<le> StatusCode wrapped
            then OnBackendFailure (clock s3 (ticks s3)) (URL_Host r) (circuitBreak s3)
            else OnBackendSuccess (URL_Host r) (circuitBreak s3))"
  using pass inner
  by (simp add: CircuitBreaker_Middleware_def time_Now_def Let_def split_beta)

text \<open>
  Claim C7 fails on the code: the report of the stage is not keyed by the backend that
  the request is sent to. An ordinary request (its URL has no host) goes through the
  stage to \<open>ProxyHandler.ServeHTTP\<close>, which sends it to the pool entry
  \<open>http://localhost:8080\<close>; the backend is down and the answer is 502. The tracker then
  holds one failure under that backend, the one \<open>ServeHTTP\<close> reports itself, and the
  failure of the stage under the empty key, where \<open>ServeHTTP\<close> alone leaves no record.
  \<open>LoadBalancer.Next\<close> only ever asks the tracker about pool entries, so the reports of
  the stage never reach the circuit of a backend.
\<close>

theorem CircuitBreaker_Middleware_key:
  "sent (snd (CircuitBreaker_Middleware (ServeHTTP (sample_env None None))
      (sample_request\<lparr>URL_Host := []\<rparr>) fresh_conn
      (sample_server 100 [''http://localhost:8080''] NewCircuitBreaker)))
     = [\<lparr>out_Method = ''GET'', out_URL = ''http://localhost:8080/api?a=1'',
         out_Header = [], out_Body = ''hello''\<rparr>]
   \<and> cb_backends (circuitBreak (snd (CircuitBreaker_Middleware (ServeHTTP (sample_env None None))
      (sample_request\<lparr>URL_Host := []\<rparr>) fresh_conn
      (sample_server 100 [''http://localhost:8080''] NewCircuitBreaker)))) ''http://localhost:8080''
     = Some \<lparr>state = StateClosed, failureCount = 1, lastFailureTime = 0\<rparr>
   \<and> cb_backends (circuitBreak (snd (CircuitBreaker_Middleware (ServeHTTP (sample_env None None))
      (sample_request\<lparr>URL_Host := []\<rparr>) fresh_conn
      (sample_server 100 [''http://localhost:8080''] NewCircuitBreaker)))) []
     = Some \<lparr>state = StateClosed, failureCount = 1, lastFailureTime = 0\<rparr>
   \<and> cb_backends (circuitBreak (snd (ServeHTTP (sample_env None None)
      (sample_request\<lparr>URL_Host := []\<rparr>) fresh_conn
      (sample_server 100 [''http://localhost:8080''] NewCircuitBreaker)))) [] = None"
  by (simp add: CircuitBreaker_Middleware_def ServeHTTP_def Next_def Next_loop.simps New_def IsBackendOpen_def NewCircuitBreaker_def
        newBackendState_def NewRequest_def targetURL_def io_Copy_def OnBackendSuccess_def
        OnBackendFailure_def HandleError_def http_Error_def conn_Write_def sniffContentType_def
        bodyAllowedForStatus_def time_Now_def New_Metrics_def
        IncRequest_def IncResponse_def IncError_def Let_def
        zeroTime_def sample_request_def fresh_conn_def sample_response_def sample_env_def sample_server_def open_breaker_def)

lemma conn_of_Header_Set:
  "conn_of (Header_Set k v w) =
     (conn_of w)\<lparr>handlerHeader := filter (\<lambda>kv. fst kv \<noteq> k) (handlerHeader (conn_of w)) @ [(k, v)]\<rparr>"
  by (induction w) simp_all

lemma conn_of_Header_Del:
  "conn_of (Header_Del k w) =
     (conn_of w)\<lparr>handlerHeader := filter (\<lambda>kv. fst kv \<noteq> k) (handlerHeader (conn_of w))\<rparr>"
  by (induction w) simp_all

lemma conn_of_WriteHeader:
  "conn_of (WriteHeader code w) =
     (if wroteHeader (conn_of w) = None
      then (conn_of w)\<lparr>wroteHeader := Some (code, handlerHeader (conn_of w))\<rparr>
      else conn_of w)"
  by (induction w) simp_all

lemma sniffContentType_code:
  "(\<exists>header'. sniffContentType detect p (code, header) = (code', header')) \<longleftrightarrow> code = code'"
  by (auto simp: sniffContentType_def Let_def)

text \<open>One \<open>http.Error\<close> on a connection on which nothing is committed yet is one error
  response for the caller: the status is the code and the body is the message line.\<close>

lemma http_Error_response:
  assumes "wroteHeader (conn_of w) = None"
  shows "map_option fst (wroteHeader (conn_of (http_Error msg code w))) = Some code
         \<and> written (conn_of (http_Error msg code w)) = written (conn_of w) @ msg @ [CHR 0x0A]"
  using assms
  by (simp add: http_Error_def Let_def conn_of_Write conn_of_WriteHeader conn_of_Header_Set
      conn_of_Header_Del conn_Write_def sniffContentType_code)

text \<open>
  Claim C8, as the code has it. The rejections of the rate limiter (capacity exceeded)
  and of the circuit breaker stage (circuit open at entry) make one \<open>http.Error\<close> call
  on the writer they were given, log it, and leave the metrics as they are: these stages
  hold no reference to them. The paths of \<open>ProxyHandler.ServeHTTP\<close> for no backend
  available and for an unreachable upstream add one to \<open>ErrorCount\<close> and make one
  \<open>http.Error\<close> call on the writer they were given. On a connection with nothing
  committed that call is exactly one error response: the status is the code of the
  error and the body its message. The path for a response copy failure adds one to
  \<open>ErrorCount\<close> and logs the error.
\<close>

theorem error_paths:
  fixes env r w s
  defines "clk \<equiv> \<lambda>i. clock s (ticks s + i)"
  defines "backend \<equiv> fst (Next clk (lb s) (circuitBreak s))"
  shows
    "(\<not> fst (Allow (clock s (ticks s)) (limiter s)) \<longrightarrow>
        fst (RateLimiter_Middleware h r w s) = http_Error ''Rate limit exceeded'' 429 w
      \<and> logged (snd (RateLimiter_Middleware h r w s))
          = logged s @ [ErrorLog ''Rate limit exceeded'' 429]
      \<and> metrics (snd (RateLimiter_Middleware h r w s)) = metrics s)
   \<and> (fst (IsBackendOpen (clock s (ticks s)) (URL_Host r) (circuitBreak s)) \<longrightarrow>
        fst (CircuitBreaker_Middleware h r w s) = http_Error ''Circuit breaker is open'' 503 w
      \<and> logged (snd (CircuitBreaker_Middleware h r w s))
          = logged s @ [ErrorLog ''Circuit breaker is open'' 503]
      \<and> metrics (snd (CircuitBreaker_Middleware h r w s)) = metrics s)
   \<and> (backend = [] \<longrightarrow>
        fst (ServeHTTP env r w s) = http_Error ''No backends available'' 503 w
      \<and> logged (snd (ServeHTTP env r w s)) = logged s @ [ErrorLog ''No backends available'' 503]
      \<and> ErrorCount (metrics (snd (ServeHTTP env r w s))) = ErrorCount (metrics s) + 1)
   \<and> (\<forall>q. backend \<noteq> [] \<and> NewRequest env (Method r) (targetURL backend r) (Body r) = Some q
          \<and> roundTrip env q = None \<longrightarrow>
        fst (ServeHTTP env r w s) = http_Error ''Error forwarding request'' 502 w
      \<and> logged (snd (ServeHTTP env r w s))
          = logged s @ [ErrorLog ''Error forwarding request'' 502]
      \<and> ErrorCount (metrics (snd (ServeHTTP env r w s))) = ErrorCount (metrics s) + 1)
   \<and> (\<forall>q resp. backend \<noteq> [] \<and> NewRequest env (Method r) (targetURL backend r) (Body r) = Some q
          \<and> roundTrip env q = Some resp \<and> copyFailure env \<noteq> None \<longrightarrow>
        logged (snd (ServeHTTP env r w s))
          = logged s @ [ErrorLog ''Error copying response'' 500]
      \<and> ErrorCount (metrics (snd (ServeHTTP env r w s))) = ErrorCount (metrics s) + 1)
   \<and> (wroteHeader (conn_of w) = None \<longrightarrow>
        map_option fst (wroteHeader (conn_of (http_Error msg code w))) = Some code
      \<and> written (conn_of (http_Error msg code w)) = written (conn_of w) @ msg @ [CHR 0x0A])"
proof -
  have rl: "\<not> fst (Allow (clock s (ticks s)) (limiter s)) \<Longrightarrow>
        fst (RateLimiter_Middleware h r w s) = http_Error ''Rate limit exceeded'' 429 w
      \<and> logged (snd (RateLimiter_Middleware h r w s))
          = logged s @ [ErrorLog ''Rate limit exceeded'' 429]
      \<and> metrics (snd (RateLimiter_Middleware h r w s)) = metrics s"
    by (simp add: RateLimiter_Middleware_def time_Now_def HandleError_def Let_def split_beta)
  have cb: "fst (IsBackendOpen (clock s (ticks s)) (URL_Host r) (circuitBreak s)) \<Longrightarrow>
        fst (CircuitBreaker_Middleware h r w s) = http_Error ''Circuit breaker is open'' 503 w
      \<and> logged (snd (CircuitBreaker_Middleware h r w s))
          = logged s @ [ErrorLog ''Circuit breaker is open'' 503]
      \<and> metrics (snd (CircuitBreaker_Middleware h r w s)) = metrics s"
    by (simp add: CircuitBreaker_Middleware_def time_Now_def HandleError_def Let_def split_beta)
  have nb: "backend = [] \<Longrightarrow>
        fst (ServeHTTP env r w s) = http_Error ''No backends available'' 503 w
      \<and> logged (snd (ServeHTTP env r w s)) = logged s @ [ErrorLog ''No backends available'' 503]
      \<and> ErrorCount (metrics (snd (ServeHTTP env r w s))) = ErrorCount (metrics s) + 1"
    unfolding backend_def clk_def
    by (simp add: ServeHTTP_def HandleError_def Let_def split_beta embedded_http_Error
        IncError_def IncRequest_def)
  have up: "backend \<noteq> [] \<and> NewRequest env (Method r) (targetURL backend r) (Body r) = Some q
          \<and> roundTrip env q = None \<Longrightarrow>
        fst (ServeHTTP env r w s) = http_Error ''Error forwarding request'' 502 w
      \<and> logged (snd (ServeHTTP env r w s))
          = logged s @ [ErrorLog ''Error forwarding request'' 502]
      \<and> ErrorCount (metrics (snd (ServeHTTP env r w s))) = ErrorCount (metrics s) + 1" for q
    unfolding backend_def clk_def
    by (simp add: ServeHTTP_def HandleError_def time_Now_def Let_def split_beta
        embedded_http_Error IncError_def IncRequest_def)
  have cp: "backend \<noteq> [] \<and> NewRequest env (Method r) (targetURL backend r) (Body r) = Some q
          \<and> roundTrip env q = Some resp \<and> copyFailure env \<noteq> None \<Longrightarrow>
        logged (snd (ServeHTTP env r w s))
          = logged s @ [ErrorLog ''Error copying response'' 500]
      \<and> ErrorCount (metrics (snd (ServeHTTP env r w s))) = ErrorCount (metrics s) + 1" for q resp
    unfolding backend_def clk_def
    by (simp add: ServeHTTP_def HandleError_def io_Copy_def Let_def split_beta
        IncError_def IncRequest_def)
  note one = http_Error_response [of w msg code]
  show ?thesis
    using rl cb nb up cp one by blast
qed

text \<open>
  Claim C1, as the code has it. When a backend is chosen, the request is built and
  \<open>client.Do\<close> returns a response, \<open>ServeHTTP\<close> reports a success for that backend to the
  tracker. If the copy of the body completes, the caller's connection has received the
  bytes of the backend's body, unchanged, after what was written before, the response
  counter is one higher, the error counter is unchanged and nothing is logged. If the
  copy breaks, the response counter is unchanged and the error counter is one higher.
\<close>

theorem ServeHTTP_completed:
  assumes sel: "Next (\<lambda>i. clock s (ticks s + i)) (lb s) (circuitBreak s) = (backend, lb1, cb1)"
    and some: "backend \<noteq> []"
    and req: "NewRequest env (Method r) (targetURL backend r) (Body r) = Some q"
    and answered: "roundTrip env q = Some resp"
  shows "circuitBreak (snd (ServeHTTP env r w s)) = OnBackendSuccess backend cb1
         \<and> (copyFailure env = None \<longrightarrow>
               written (conn_of (fst (ServeHTTP env r w s))) = written (conn_of w) @ resp_Body resp
             \<and> ResponseCount (metrics (snd (ServeHTTP env r w s))) = ResponseCount (metrics s) + 1
             \<and> ErrorCount (metrics (snd (ServeHTTP env r w s))) = ErrorCount (metrics s)
             \<and> logged (snd (ServeHTTP env r w s)) = logged s)
         \<and> (copyFailure env \<noteq> None \<longrightarrow>
               ResponseCount (metrics (snd (ServeHTTP env r w s))) = ResponseCount (metrics s)
             \<and> ErrorCount (metrics (snd (ServeHTTP env r w s))) = ErrorCount (metrics s) + 1)"
proof -
  have cbs: "circuitBreak (snd (ServeHTTP env r w s)) = OnBackendSuccess backend cb1"
    using sel some req answered
    by (simp add: ServeHTTP_def HandleError_def io_Copy_def Let_def split_beta)
  have ok: "written (conn_of (fst (ServeHTTP env r w s))) = written (conn_of w) @ resp_Body resp
             \<and> ResponseCount (metrics (snd (ServeHTTP env r w s))) = ResponseCount (metrics s) + 1
             \<and> ErrorCount (metrics (snd (ServeHTTP env r w s))) = ErrorCount (metrics s)
             \<and> logged (snd (ServeHTTP env r w s)) = logged s"
    if "copyFailure env = None"
    using sel some req answered that
    by (simp add: ServeHTTP_def io_Copy_def Let_def split_beta written_Write
        IncRequest_def IncResponse_def)
  have bad: "ResponseCount (metrics (snd (ServeHTTP env r w s))) = ResponseCount (metrics s)
             \<and> ErrorCount (metrics (snd (ServeHTTP env r w s))) = ErrorCount (metrics s) + 1"
    if "copyFailure env \<noteq> None"
    using sel some req answered that
    by (simp add: ServeHTTP_def HandleError_def io_Copy_def Let_def split_beta
        IncRequest_def IncError_def)
  show ?thesis using cbs ok bad by blast
qed

text \<open>
  Claim C10. \<open>ServeHTTP\<close> hands at most one request to \<open>client.Do\<close>: when a backend is
  chosen and \<open>http.NewRequest\<close> accepts the method and the URL, it is the request with
  the inbound method, the backend's base URL followed by the inbound path and, if there
  is one, \<open>?\<close> and the inbound query string, the inbound body, and an empty header map.
  The inbound headers have no influence on what \<open>ServeHTTP\<close> does. (A request read by
  the \<open>net/http\<close> server has a non-empty method; \<open>http.NewRequest\<close> would read an empty
  one as GET.)
\<close>

theorem ServeHTTP_outbound:
  assumes m: "Method r \<noteq> []"
  shows "sent (snd (ServeHTTP env r w s)) =
           sent s @
           (let backend = fst (Next (\<lambda>i. clock s (ticks s + i)) (lb s) (circuitBreak s));
                url = backend @ URL_Path r
                        @ (if URL_RawQuery r \<noteq> [] then ''?'' @ URL_RawQuery r else [])
            in if backend \<noteq> [] \<and> validRequest env (Method r) url
               then [\<lparr>out_Method = Method r, out_URL = url, out_Header = [], out_Body = Body r\<rparr>]
               else [])
         \<and> ServeHTTP env (r\<lparr>Header := hs\<rparr>) w s = ServeHTTP env r w s"
proof -
  have 1: "sent (snd (ServeHTTP env r w s)) =
           sent s @
           (let backend = fst (Next (\<lambda>i. clock s (ticks s + i)) (lb s) (circuitBreak s));
                url = backend @ URL_Path r
                        @ (if URL_RawQuery r \<noteq> [] then ''?'' @ URL_RawQuery r else [])
            in if backend \<noteq> [] \<and> validRequest env (Method r) url
               then [\<lparr>out_Method = Method r, out_URL = url, out_Header = [], out_Body = Body r\<rparr>]
               else [])"
    using m
    by (simp add: ServeHTTP_def NewRequest_def targetURL_def HandleError_def time_Now_def
        Let_def split_beta split: option.splits)
  have 2: "ServeHTTP env (r\<lparr>Header := hs\<rparr>) w s = ServeHTTP env r w s"
    by (simp add: ServeHTTP_def targetURL_def Let_def split_beta cong: if_cong option.case_cong)
  from 1 2 show ?thesis by blast
qed

text \<open>A backend that answers with the body \<open>{}\<close>, with a copy that completes and
  with one that breaks after the first byte.\<close>

theorem ServeHTTP_completed_witness:
  "written (conn_of (fst (ServeHTTP (sample_env (Some sample_response) None) sample_request fresh_conn
      (sample_server 100 [''http://localhost:8080''] NewCircuitBreaker)))) = ''{}''
   \<and> ResponseCount (metrics (snd (ServeHTTP (sample_env (Some sample_response) None) sample_request fresh_conn
      (sample_server 100 [''http://localhost:8080''] NewCircuitBreaker)))) = 1
   \<and> ErrorCount (metrics (snd (ServeHTTP (sample_env (Some sample_response) (Some 1)) sample_request fresh_conn
      (sample_server 100 [''http://localhost:8080''] NewCircuitBreaker)))) = 1
   \<and> cb_backends (circuitBreak (snd (ServeHTTP (sample_env (Some sample_response) (Some 1)) sample_request fresh_conn
      (sample_server 100 [''http://localhost:8080''] NewCircuitBreaker)))) ''http://localhost:8080'' = Some newBackendState"
  using ServeHTTP_completed
    [where s = "sample_server 100 [''http://localhost:8080''] NewCircuitBreaker" and r = sample_request and w = fresh_conn
       and env = "sample_env (Some sample_response) None"
       and backend = "''http://localhost:8080''"
       and ?lb1.0 = "\<lparr>lb_backends = [''http://localhost:8080''], current = 1\<rparr>"
       and ?cb1.0 = "NewCircuitBreaker\<lparr>cb_backends := [''http://localhost:8080'' \<mapsto> newBackendState]\<rparr>"
       and q = "\<lparr>out_Method = ''GET'', out_URL = ''http://localhost:8080/api?a=1'',
                 out_Header = [], out_Body = ''hello''\<rparr>"
       and resp = sample_response]
    ServeHTTP_completed
    [where s = "sample_server 100 [''http://localhost:8080''] NewCircuitBreaker" and r = sample_request and w = fresh_conn
       and env = "sample_env (Some sample_response) (Some 1)"
       and backend = "''http://localhost:8080''"
       and ?lb1.0 = "\<lparr>lb_backends = [''http://localhost:8080''], current = 1\<rparr>"
       and ?cb1.0 = "NewCircuitBreaker\<lparr>cb_backends := [''http://localhost:8080'' \<mapsto> newBackendState]\<rparr>"
       and q = "\<lparr>out_Method = ''GET'', out_URL = ''http://localhost:8080/api?a=1'',
                 out_Header = [], out_Body = ''hello''\<rparr>"
       and resp = sample_response]
  by (simp add: Next_def Next_loop.simps New_def IsBackendOpen_def NewCircuitBreaker_def
        NewRequest_def targetURL_def New_Metrics_def Let_def OnBackendSuccess_def
        newBackendState_def sample_request_def fresh_conn_def sample_response_def sample_env_def sample_server_def open_breaker_def)

text \<open>
  Claim C1 as stated fails: \<open>ServeHTTP\<close> copies the body only. The sample backend answers
  404 with the Content-Type \<open>application/json\<close>; the connection commits status 200, and
  its Content-Type is the one the server sniffs from the body. And when the copy breaks
  after a completed backend call, the response counter is not incremented.
\<close>

theorem ServeHTTP_status_counterexample:
  "map_option (\<lambda>(code, header). (code, map_of header ''Content-Type''))
     (wroteHeader (conn_of (fst (ServeHTTP (sample_env (Some sample_response) None) sample_request fresh_conn
        (sample_server 100 [''http://localhost:8080''] NewCircuitBreaker)))))
     = Some (200, Some ''text/plain; charset=utf-8'')
   \<and> resp_StatusCode sample_response = 404
   \<and> map_of (resp_Header sample_response) ''Content-Type'' = Some ''application/json''
   \<and> ResponseCount (metrics (snd (ServeHTTP (sample_env (Some sample_response) (Some 1)) sample_request fresh_conn
        (sample_server 100 [''http://localhost:8080''] NewCircuitBreaker)))) = 0"
  by (simp add: ServeHTTP_def Next_def Next_loop.simps New_def IsBackendOpen_def NewCircuitBreaker_def
        newBackendState_def NewRequest_def targetURL_def io_Copy_def OnBackendSuccess_def
        OnBackendFailure_def HandleError_def http_Error_def conn_Write_def sniffContentType_def
        bodyAllowedForStatus_def time_Now_def New_Metrics_def
        IncRequest_def IncResponse_def IncError_def Let_def
        sample_request_def fresh_conn_def sample_response_def sample_env_def sample_server_def open_breaker_def)

text \<open>A server with limit 0, an empty pool and an Open circuit for the request's host
  takes the first three paths, and the caller gets the 429, the 503 of the stage or the
  503 of the handler; a server with one backend takes the fourth when the backend is
  down, and the caller gets the 502, and the fifth when the copy breaks after one byte.\<close>

theorem error_paths_witness:
  "metrics (snd (RateLimiter_Middleware (ServeHTTP (sample_env None None)) sample_request fresh_conn
      (sample_server 0 [] open_breaker))) = New_Metrics
   \<and> map_option fst (wroteHeader (conn_of (fst (RateLimiter_Middleware
      (ServeHTTP (sample_env None None)) sample_request fresh_conn (sample_server 0 [] open_breaker))))) = Some 429
   \<and> metrics (snd (CircuitBreaker_Middleware (ServeHTTP (sample_env None None)) sample_request fresh_conn
      (sample_server 0 [] open_breaker))) = New_Metrics
   \<and> map_option fst (wroteHeader (conn_of (fst (CircuitBreaker_Middleware
      (ServeHTTP (sample_env None None)) sample_request fresh_conn (sample_server 0 [] open_breaker))))) = Some 503
   \<and> ErrorCount (metrics (snd (ServeHTTP (sample_env None None) sample_request fresh_conn
      (sample_server 0 [] open_breaker)))) = 1
   \<and> written (conn_of (fst (ServeHTTP (sample_env None None) sample_request fresh_conn
      (sample_server 0 [] open_breaker)))) = ''No backends available'' @ [CHR 0x0A]
   \<and> ErrorCount (metrics (snd (ServeHTTP (sample_env None None) sample_request fresh_conn
      (sample_server 100 [''http://localhost:8080''] NewCircuitBreaker)))) = 1
   \<and> map_option fst (wroteHeader (conn_of (fst (ServeHTTP (sample_env None None) sample_request
      fresh_conn (sample_server 100 [''http://localhost:8080''] NewCircuitBreaker))))) = Some 502
   \<and> ErrorCount (metrics (snd (ServeHTTP (sample_env (Some sample_response) (Some 1)) sample_request fresh_conn
      (sample_server 100 [''http://localhost:8080''] NewCircuitBreaker)))) = 1"
  using error_paths
    [where s = "sample_server 0 [] open_breaker" and r = sample_request and w = fresh_conn
       and env = "sample_env None None" and h = "ServeHTTP (sample_env None None)"
       and msg = "''No backends available''" and code = 503]
    error_paths
    [where s = "sample_server 100 [''http://localhost:8080''] NewCircuitBreaker" and r = sample_request and w = fresh_conn
       and env = "sample_env None None" and h = "ServeHTTP (sample_env None None)"
       and msg = "''Error forwarding request''" and code = 502]
    error_paths
    [where s = "sample_server 100 [''http://localhost:8080''] NewCircuitBreaker" and r = sample_request and w = fresh_conn
       and env = "sample_env (Some sample_response) (Some 1)" and h = "ServeHTTP (sample_env (Some sample_response) (Some 1))"
       and msg = "''Error copying response''" and code = 500]
  by (simp add: ServeHTTP_def Next_def Next_loop.simps New_def IsBackendOpen_def NewCircuitBreaker_def
        newBackendState_def NewRequest_def targetURL_def io_Copy_def OnBackendSuccess_def
        OnBackendFailure_def HandleError_def http_Error_def conn_Write_def sniffContentType_def
        bodyAllowedForStatus_def time_Now_def New_Metrics_def
        IncRequest_def IncResponse_def IncError_def Let_def Allow_def prune.simps
        RateLimiter_Middleware_def CircuitBreaker_Middleware_def
        Since_def minDuration_def maxDuration_def Second_def
        sample_request_def fresh_conn_def sample_response_def sample_env_def sample_server_def open_breaker_def)

text \<open>
  Claim C8 as stated fails: a request rejected by the rate limiter gets its 429 and a
  request rejected by the circuit breaker stage its 503, and \<open>ErrorCount\<close> is still 0.
\<close>

theorem error_counter_counterexample:
  "wroteHeader (conn_of (fst (createHandler (sample_env (Some sample_response) None) sample_request fresh_conn
      (sample_server 0 [''http://localhost:8080''] NewCircuitBreaker))))
     = Some (429, [(''Content-Type'', ''text/plain; charset=utf-8''),
                   (''X-Content-Type-Options'', ''nosniff'')])
   \<and> ErrorCount (metrics (snd (createHandler (sample_env (Some sample_response) None) sample_request fresh_conn
      (sample_server 0 [''http://localhost:8080''] NewCircuitBreaker)))) = 0
   \<and> wroteHeader (conn_of (fst (createHandler (sample_env (Some sample_response) None) sample_request fresh_conn
      (sample_server 100 [''http://localhost:8080''] open_breaker))))
     = Some (503, [(''Content-Type'', ''text/plain; charset=utf-8''),
                   (''X-Content-Type-Options'', ''nosniff'')])
   \<and> ErrorCount (metrics (snd (createHandler (sample_env (Some sample_response) None) sample_request fresh_conn
      (sample_server 100 [''http://localhost:8080''] open_breaker)))) = 0"
  by (simp add: createHandler_def Chain_foldr RateLimiter_Middleware_def
        CircuitBreaker_Middleware_def time_Now_def IsBackendOpen_def NewCircuitBreaker_def
        Since_def minDuration_def maxDuration_def Second_def
        Allow_def prune.simps HandleError_def http_Error_def conn_Write_def sniffContentType_def bodyAllowedForStatus_def New_Metrics_def Let_def
        sample_request_def fresh_conn_def sample_response_def sample_env_def sample_server_def open_breaker_def)

text \<open>The sample request: a GET with a query string, a body and an Authorization
  header.\<close>

theorem ServeHTTP_outbound_witness:
  "sent (snd (ServeHTTP (sample_env (Some sample_response) None) sample_request fresh_conn
      (sample_server 100 [''http://localhost:8080''] NewCircuitBreaker))) =
     [\<lparr>out_Method = ''GET'', out_URL = ''http://localhost:8080/api?a=1'',
       out_Header = [], out_Body = ''hello''\<rparr>]"
  using ServeHTTP_outbound
    [where s = "sample_server 100 [''http://localhost:8080''] NewCircuitBreaker" and r = sample_request and w = fresh_conn
       and env = "sample_env (Some sample_response) None"]
  by (simp add: Next_def Next_loop.simps New_def IsBackendOpen_def NewCircuitBreaker_def Let_def
        sample_request_def fresh_conn_def sample_response_def sample_env_def sample_server_def open_breaker_def)

end
